theory Spec2Isabelle
  imports Complex_Main
begin

section \<open>Dirac measures and product measures (dirac\_measure.py)\<close>

text \<open>
  The module defines three classes, \<open>point\<close>, \<open>dirac_measure\<close> (a Python list of
  points) and \<open>product_measure\<close> (a Python list of dirac measures), and the four
  converters \<open>compose\<close>, \<open>decompose\<close>, \<open>unflatten\<close> and \<open>flatten\<close>.

  Numbers (positions and weights) are modelled as \<open>real\<close>. The members that only
  read a measure depend on the current values of its points alone, so they are functions
  of the list of those values (\<open>dirac_measure\<close>, \<open>product_measure\<close>). The setters
  assign to attributes of point objects, and one object may occur at several indices of
  a measure; they are modelled on a store of point objects, the measure being the list
  of references it holds. An exception leaves the assignments made before it in place,
  so a setter returns the store together with its outcome.
\<close>

subsection \<open>Errors and indexing\<close>

datatype error = IndexError | DelegatedFailure

text \<open>\<open>xs[i]\<close> for a non-negative index: out of range raises \<open>IndexError\<close>.\<close>

definition index :: "'a list \<Rightarrow> nat \<Rightarrow> error + 'a" where
  "index xs i = (if i < length xs then Inr (xs ! i) else Inl IndexError)"

text \<open>The builtin \<open>sum\<close>: accumulation from 0, left to right.\<close>

definition py_sum :: "real list \<Rightarrow> real" where
  "py_sum xs = foldl (+) 0 xs"

subsection \<open>class point\<close>

record point =
  position :: real
  weight :: real

subsection \<open>class dirac\_measure\<close>

type_synonym dirac_measure = "point list"

definition dirac_weights :: "dirac_measure \<Rightarrow> real list" where
  "dirac_weights s = map weight s"

definition dirac_positions :: "dirac_measure \<Rightarrow> real list" where
  "dirac_positions s = map position s"

definition dirac_n :: "dirac_measure \<Rightarrow> nat" where
  "dirac_n s = length s"

definition dirac_mass :: "dirac_measure \<Rightarrow> real" where
  "dirac_mass s = py_sum (dirac_weights s)"

text \<open>
  Point objects live in a store; a dirac measure object is the list of the references
  it holds, and \<open>points_of\<close> reads the current values of its points, in order.
\<close>

type_synonym point_ref = nat

type_synonym store = "point_ref \<Rightarrow> point"

definition points_of :: "store \<Rightarrow> point_ref list \<Rightarrow> dirac_measure" where
  "points_of h s = map h s"

text \<open>
  \<open>__set_weights\<close>: \<open>for i in range(len(weights)): self[i].weight = weights[i]\<close>.
  The loop runs over the index list \<open>range(len(weights))\<close>; \<open>self[i]\<close> raises when
  \<open>i\<close> is past the last point, after the earlier assignments have been made. Each
  assignment changes the point object that \<open>self[i]\<close> refers to.
\<close>

fun set_weights_loop :: "nat list \<Rightarrow> real list \<Rightarrow> point_ref list \<Rightarrow> store \<Rightarrow> store \<times> (error + unit)" where
  "set_weights_loop [] weights s h = (h, Inr ())"
| "set_weights_loop (i # is) weights s h =
     (case index s i of
        Inl e \<Rightarrow> (h, Inl e)
      | Inr p \<Rightarrow> set_weights_loop is weights s (h(p := (h p)\<lparr>weight := weights ! i\<rparr>)))"

definition dirac_set_weights :: "point_ref list \<Rightarrow> store \<Rightarrow> real list \<Rightarrow> store \<times> (error + unit)" where
  "dirac_set_weights s h weights = set_weights_loop [0..<length weights] weights s h"

text \<open>\<open>__set_positions\<close>: the same loop on the positions.\<close>

fun set_positions_loop :: "nat list \<Rightarrow> real list \<Rightarrow> point_ref list \<Rightarrow> store \<Rightarrow> store \<times> (error + unit)" where
  "set_positions_loop [] positions s h = (h, Inr ())"
| "set_positions_loop (i # is) positions s h =
     (case index s i of
        Inl e \<Rightarrow> (h, Inl e)
      | Inr p \<Rightarrow> set_positions_loop is positions s (h(p := (h p)\<lparr>position := positions ! i\<rparr>)))"

definition dirac_set_positions :: "point_ref list \<Rightarrow> store \<Rightarrow> real list \<Rightarrow> store \<times> (error + unit)" where
  "dirac_set_positions s h positions = set_positions_loop [0..<length positions] positions s h"

text \<open>
  \<open>__set_range\<close> and \<open>__set_mean\<close> assign to \<open>self.coords\<close> what the external
  \<open>impose_spread\<close> and \<open>impose_mean\<close> of \<open>mystic.math.measures\<close> return. The external
  routine is a parameter: it receives the requested value, the current positions and the
  current weights, and either fails or returns the new positions.
\<close>

type_synonym impose = "real \<Rightarrow> real list \<Rightarrow> real list \<Rightarrow> error + real list"

definition dirac_set_range :: "impose \<Rightarrow> point_ref list \<Rightarrow> store \<Rightarrow> real \<Rightarrow> store \<times> (error + unit)" where
  "dirac_set_range impose_spread s h r =
     (case impose_spread r (dirac_positions (points_of h s)) (dirac_weights (points_of h s)) of
        Inl e \<Rightarrow> (h, Inl e)
      | Inr coords \<Rightarrow> dirac_set_positions s h coords)"

definition dirac_set_mean :: "impose \<Rightarrow> point_ref list \<Rightarrow> store \<Rightarrow> real \<Rightarrow> store \<times> (error + unit)" where
  "dirac_set_mean impose_mean s h m =
     (case impose_mean m (dirac_positions (points_of h s)) (dirac_weights (points_of h s)) of
        Inl e \<Rightarrow> (h, Inl e)
      | Inr coords \<Rightarrow> dirac_set_positions s h coords)"

subsection \<open>class product\_measure\<close>

type_synonym product_measure = "dirac_measure list"

text \<open>
  Modelled from the spec: \<open>_pack\<close> of \<open>mystic.math.measures\<close> is not part of this
  module. It groups per-dimension sequences into the Cartesian-product enumeration of
  the joint grid, one tuple per grid point collecting one entry from each dimension.
  The enumeration chosen here lets the first dimension vary fastest; a tuple is a list.
\<close>

fun pack :: "'a list list \<Rightarrow> 'a list list" where
  "pack [] = [[]]"
| "pack (xs # rest) = concat (map (\<lambda>t. map (\<lambda>x. x # t) xs) (pack rest))"

text \<open>\<open>__n\<close>: \<open>npts = 1; for i in self: npts *= i.npts\<close>.\<close>

definition product_n :: "product_measure \<Rightarrow> nat" where
  "product_n c = foldl (\<lambda>npts i. npts * dirac_n i) 1 c"

text \<open>\<open>__weights\<close>: each packed tuple of weights is multiplied up from \<open>1.0\<close>.\<close>

definition product_weights :: "product_measure \<Rightarrow> real list" where
  "product_weights c =
     (let weights = pack (map dirac_weights c)
      in map (\<lambda>wts. foldl (\<lambda>weight w. weight * w) 1 wts) weights)"

definition product_positions :: "product_measure \<Rightarrow> real list list" where
  "product_positions c = pack (map dirac_positions c)"

text \<open>\<open>__mass\<close>: \<open>[self[i].mass for i in range(len(self))]\<close>.\<close>

definition product_mass :: "product_measure \<Rightarrow> real list" where
  "product_mass c = map (\<lambda>i. dirac_mass (c ! i)) [0..<length c]"

text \<open>
  \<open>pof\<close>: \<open>u = 0; for i in range(self.npts): if f(self.coords[i]) <= 0.0: u += self.weights[i]\<close>.
  Both views are recomputed at every access; an index past the end of a view raises.
\<close>

fun pof_loop :: "(real list \<Rightarrow> real) \<Rightarrow> product_measure \<Rightarrow> nat list \<Rightarrow> real \<Rightarrow> error + real" where
  "pof_loop f c [] u = Inr u"
| "pof_loop f c (i # is) u =
     (case index (product_positions c) i of
        Inl e \<Rightarrow> Inl e
      | Inr x \<Rightarrow>
          if f x \<le> 0 then
            (case index (product_weights c) i of
               Inl e \<Rightarrow> Inl e
             | Inr w \<Rightarrow> pof_loop f c is (u + w))
          else pof_loop f c is u)"

definition pof :: "product_measure \<Rightarrow> (real list \<Rightarrow> real) \<Rightarrow> error + real" where
  "pof c f = pof_loop f c [0..<product_n c] 0"

subsection \<open>Creators and destructors\<close>

text \<open>
  \<open>compose\<close>: the inner loop appends \<open>point(samples[i][j], weights[i][j])\<close> for
  \<open>j in range(len(samples[i]))\<close>; \<open>weights[i]\<close> and \<open>weights[i][j]\<close> raise when out
  of range.
\<close>

fun compose_inner :: "real list list \<Rightarrow> real list list \<Rightarrow> nat \<Rightarrow> nat list \<Rightarrow> dirac_measure \<Rightarrow> error + dirac_measure" where
  "compose_inner samples weights i [] nxt = Inr nxt"
| "compose_inner samples weights i (j # js) nxt =
     (case index weights i of
        Inl e \<Rightarrow> Inl e
      | Inr wi \<Rightarrow>
          (case index wi j of
             Inl e \<Rightarrow> Inl e
           | Inr w \<Rightarrow>
               compose_inner samples weights i js
                 (nxt @ [\<lparr>position = samples ! i ! j, weight = w\<rparr>])))"

fun compose_outer :: "real list list \<Rightarrow> real list list \<Rightarrow> nat list \<Rightarrow> product_measure \<Rightarrow> error + product_measure" where
  "compose_outer samples weights [] total_acc = Inr total_acc"
| "compose_outer samples weights (i # is) total_acc =
     (case compose_inner samples weights i [0..<length (samples ! i)] [] of
        Inl e \<Rightarrow> Inl e
      | Inr nxt \<Rightarrow> compose_outer samples weights is (total_acc @ [nxt]))"

definition compose :: "real list list \<Rightarrow> real list list \<Rightarrow> error + product_measure" where
  "compose samples weights = compose_outer samples weights [0..<length samples] []"

text \<open>
  \<open>flatten\<close>: \<open>rv\<close> collects, for each \<open>i in range(len(c))\<close>, \<open>c[i].weights\<close> and then
  \<open>c[i].coords\<close>; \<open>chain(*rv)\<close> concatenates the collected lists.
\<close>

definition flatten :: "product_measure \<Rightarrow> real list" where
  "flatten c =
     (let rv = foldl (\<lambda>rv i. (rv @ [dirac_weights (c ! i)]) @ [dirac_positions (c ! i)])
                 [] [0..<length c]
      in concat rv)"

text \<open>
  Modelled from the spec: \<open>_nested_split\<close> of \<open>mystic.math.measures\<close> is not part of
  this module. Given a flat sequence and the per-dimension point counts it returns the
  nested weights and the nested positions, reading for each dimension in order its
  \<open>n\<close> weights and then its \<open>n\<close> positions (the inverse of the layout \<open>flatten\<close> writes).
\<close>

fun nested_split :: "'a list \<Rightarrow> nat list \<Rightarrow> 'a list list \<times> 'a list list" where
  "nested_split params [] = ([], [])"
| "nested_split params (n # npts) =
     (case nested_split (drop (2 * n) params) npts of
        (w, x) \<Rightarrow> (take n params # w, take n (drop n params) # x))"

definition decompose :: "product_measure \<Rightarrow> real list list \<times> real list list" where
  "decompose c =
     (let npts = map dirac_n c
      in case nested_split (flatten c) npts of (w, x) \<Rightarrow> (x, w))"

definition unflatten :: "real list \<Rightarrow> nat list \<Rightarrow> error + product_measure" where
  "unflatten params npts = (case nested_split params npts of (w, x) \<Rightarrow> compose x w)"

section \<open>Properties\<close>

subsection \<open>The joint point count\<close>

lemma foldl_mult_npts:
  "foldl (\<lambda>npts i. npts * dirac_n i) a c = a * prod_list (map dirac_n c)"
  by (induction c arbitrary: a) (simp_all add: mult.assoc)

lemma product_n_prod: "product_n c = prod_list (map dirac_n c)"
  by (simp add: product_n_def foldl_mult_npts)

text \<open>
  C10: a product measure that holds no dirac measure reports \<open>npts = 1\<close>, the empty
  product; in general \<open>__n\<close> returns the product of the contained point counts,
  accumulated from 1.
\<close>

theorem product_n_empty_and_product:
  "product_n [] = 1 \<and> product_n c = prod_list (map dirac_n c)"
  by (simp add: product_n_prod)

subsection \<open>Sizes of the derived views\<close>

lemma dirac_n_length: "dirac_n = length"
  by (rule ext) (simp add: dirac_n_def)

lemma length_pack: "length (pack xss) = prod_list (map length xss)"
proof (induction xss)
  case Nil
  show ?case by simp
next
  case (Cons xs rest)
  have "length (concat (map (\<lambda>t. map (\<lambda>x. x # t) xs) ys)) = length ys * length xs"
    for ys :: "'a list list"
    by (induction ys) simp_all
  with Cons show ?case by (simp add: mult.commute)
qed

lemma length_product_positions: "length (product_positions c) = product_n c"
  by (simp add: product_positions_def length_pack product_n_prod dirac_positions_def
      dirac_n_length comp_def)

lemma length_product_weights: "length (product_weights c) = product_n c"
  by (simp add: product_weights_def length_pack product_n_prod dirac_weights_def
      dirac_n_length comp_def)

text \<open>
  C4: for every product measure the three derived views agree in size: the joint weights
  and the joint coordinates both have \<open>npts\<close> entries, and \<open>npts\<close> is the product of the
  point counts of the contained dirac measures.
\<close>

theorem product_views_agree:
  "length (product_weights c) = length (product_positions c) \<and>
   length (product_positions c) = product_n c \<and>
   product_n c = prod_list (map dirac_n c)"
  by (simp add: length_product_positions length_product_weights product_n_prod)

subsection \<open>The flat layout\<close>

lemma flatten_rv:
  "foldl (\<lambda>rv i. rv @ [a i, b i]) acc js = acc @ concat (map (\<lambda>i. [a i, b i]) js)"
  by (induction js arbitrary: acc) simp_all

lemma concat_pairs:
  "concat (concat (map (\<lambda>i. [a i, b i]) js)) = concat (map (\<lambda>i. a i @ b i) js)"
  by (induction js) simp_all

lemma flatten_concat: "flatten c = concat (map (\<lambda>d. dirac_weights d @ dirac_positions d) c)"
proof -
  have "flatten c =
      concat (map (\<lambda>i. dirac_weights (c ! i) @ dirac_positions (c ! i)) [0..<length c])"
    by (simp add: flatten_def flatten_rv concat_pairs)
  also have "\<dots> =
      concat (map (\<lambda>d. dirac_weights d @ dirac_positions d) (map (\<lambda>i. c ! i) [0..<length c]))"
    by (simp add: comp_def)
  also have "map (\<lambda>i. c ! i) [0..<length c] = c"
    by (rule map_nth)
  finally show ?thesis .
qed

lemma length_flatten: "length (flatten c) = 2 * sum_list (map dirac_n c)"
  by (induction c)
    (simp_all add: flatten_concat dirac_weights_def dirac_positions_def dirac_n_def)

text \<open>
  C6: \<open>flatten c\<close> is the concatenation, over the dimensions of \<open>c\<close> in their order, of
  the dimension's whole weight sequence followed at once by its whole position sequence.
\<close>

theorem flatten_weights_then_positions:
  "flatten c = concat (map (\<lambda>d. dirac_weights d @ dirac_positions d) c)"
  by (rule flatten_concat)

text \<open>
  C9: the length of \<open>flatten c\<close> is twice the sum of the per-dimension point counts,
  the length \<open>unflatten\<close> expects of its input for those counts.
\<close>

theorem flatten_length_twice_npts:
  "length (flatten c) = 2 * sum_list (map dirac_n c)"
  by (rule length_flatten)

subsection \<open>Probability of failure\<close>

lemma pof_loop_sum:
  "\<forall>i\<in>set js. i < product_n c \<Longrightarrow>
   pof_loop f c js u =
     Inr (u + sum_list (map (\<lambda>i. product_weights c ! i)
                         (filter (\<lambda>i. f (product_positions c ! i) \<le> 0) js)))"
  by (induction js arbitrary: u)
    (simp_all add: index_def length_product_positions length_product_weights)

lemma pof_sum:
  "pof c f = Inr (sum_list (map (\<lambda>i. product_weights c ! i)
                     (filter (\<lambda>i. f (product_positions c ! i) \<le> 0) [0..<product_n c])))"
  by (simp add: pof_def pof_loop_sum)

text \<open>
  C2: for every product measure \<open>c\<close> and every function \<open>f\<close> on coordinate tuples,
  \<open>c.pof(f)\<close> returns the sum of \<open>c.weights[i]\<close> over exactly the grid indices \<open>i\<close> with
  \<open>f(c.coords[i]) \<le> 0\<close>, not renormalised; so it is 0 when \<open>f\<close> is 1 everywhere and the
  sum of all joint weights when \<open>f\<close> is -1 everywhere.
\<close>

theorem pof_sums_failure_weights:
  "pof c f = Inr (sum_list (map (\<lambda>i. product_weights c ! i)
                     (filter (\<lambda>i. f (product_positions c ! i) \<le> 0) [0..<product_n c])))
   \<and> pof c (\<lambda>x. 1) = Inr 0
   \<and> pof c (\<lambda>x. - 1) = Inr (sum_list (product_weights c))"
proof -
  have "map (\<lambda>i. product_weights c ! i) [0..<product_n c] = product_weights c"
    using map_nth [of "product_weights c"] by (simp add: length_product_weights)
  then show ?thesis by (simp add: pof_sum)
qed

subsection \<open>Round trips\<close>

lemma nested_split_layout:
  "nested_split (concat (map (\<lambda>d. dirac_weights d @ dirac_positions d) c) @ rest) (map dirac_n c)
     = (map dirac_weights c, map dirac_positions c)"
  by (induction c) (simp_all add: dirac_weights_def dirac_positions_def dirac_n_def)

lemma nested_split_flatten:
  "nested_split (flatten c) (map dirac_n c) = (map dirac_weights c, map dirac_positions c)"
  using nested_split_layout [of c "[]"] by (simp add: flatten_concat)

lemma compose_inner_ok:
  "i < length weights \<Longrightarrow> \<forall>j\<in>set js. j < length (weights ! i) \<Longrightarrow>
   compose_inner samples weights i js nxt =
     Inr (nxt @ map (\<lambda>j. \<lparr>position = samples ! i ! j, weight = weights ! i ! j\<rparr>) js)"
  by (induction js arbitrary: nxt) (simp_all add: index_def)

lemma compose_outer_ok:
  "\<forall>i\<in>set js. i < length weights \<and> length (samples ! i) \<le> length (weights ! i) \<Longrightarrow>
   compose_outer samples weights js acc =
     Inr (acc @ map (\<lambda>i. map (\<lambda>j. \<lparr>position = samples ! i ! j, weight = weights ! i ! j\<rparr>)
                          [0..<length (samples ! i)]) js)"
proof (induction js arbitrary: acc)
  case Nil
  show ?case by simp
next
  case (Cons i js)
  then have "compose_inner samples weights i [0..<length (samples ! i)] [] =
      Inr (map (\<lambda>j. \<lparr>position = samples ! i ! j, weight = weights ! i ! j\<rparr>)
            [0..<length (samples ! i)])"
    by (subst compose_inner_ok) auto
  with Cons show ?case by simp
qed

lemma compose_ok:
  assumes "length samples = length weights"
    and "\<forall>i<length samples. length (samples ! i) = length (weights ! i)"
  shows "compose samples weights =
     Inr (map (\<lambda>i. map (\<lambda>j. \<lparr>position = samples ! i ! j, weight = weights ! i ! j\<rparr>)
                          [0..<length (samples ! i)]) [0..<length samples])"
  using assms by (simp add: compose_def compose_outer_ok)

lemma compose_views:
  assumes "length samples = length weights"
    and "\<forall>i<length samples. length (samples ! i) = length (weights ! i)"
    and "compose samples weights = Inr c"
  shows "map dirac_positions c = samples" and "map dirac_weights c = weights"
proof -
  have c: "c = map (\<lambda>i. map (\<lambda>j. \<lparr>position = samples ! i ! j, weight = weights ! i ! j\<rparr>)
                          [0..<length (samples ! i)]) [0..<length samples]"
    using compose_ok [OF assms(1,2)] assms(3) by simp
  show "map dirac_positions c = samples"
    by (rule nth_equalityI) (simp_all add: c dirac_positions_def comp_def map_nth)
  show "map dirac_weights c = weights"
    using assms(1,2)
    by (intro nth_equalityI) (simp_all add: c dirac_weights_def comp_def map_nth)
qed

lemma compose_of_views: "compose (map dirac_positions c) (map dirac_weights c) = Inr c"
proof -
  have "compose (map dirac_positions c) (map dirac_weights c) =
     Inr (map (\<lambda>i. map (\<lambda>j. \<lparr>position = map dirac_positions c ! i ! j,
                              weight = map dirac_weights c ! i ! j\<rparr>)
                          [0..<length (map dirac_positions c ! i)]) [0..<length (map dirac_positions c)])"
    by (rule compose_ok) (simp_all add: dirac_positions_def dirac_weights_def)
  also have "map (\<lambda>i. map (\<lambda>j. \<lparr>position = map dirac_positions c ! i ! j,
                              weight = map dirac_weights c ! i ! j\<rparr>)
                          [0..<length (map dirac_positions c ! i)]) [0..<length (map dirac_positions c)] = c"
    by (intro nth_equalityI) (simp_all add: dirac_positions_def dirac_weights_def)
  finally show ?thesis .
qed

lemma unflatten_flatten: "unflatten (flatten c) (map dirac_n c) = Inr c"
  by (simp add: unflatten_def nested_split_flatten compose_of_views)

lemma decompose_views: "decompose c = (map dirac_positions c, map dirac_weights c)"
  by (simp add: decompose_def nested_split_flatten)

text \<open>
  C3: flattening a product measure and unflattening the result with the per-dimension
  point counts gives the measure back, so the joint coordinates and the joint weights of
  the result are those of \<open>c\<close>.
\<close>

theorem unflatten_flatten_roundtrip:
  "unflatten (flatten c) (map dirac_n c) = Inr c
   \<and> map_sum id product_positions (unflatten (flatten c) (map dirac_n c))
       = Inr (product_positions c)
   \<and> map_sum id product_weights (unflatten (flatten c) (map dirac_n c))
       = Inr (product_weights c)"
  by (simp add: unflatten_flatten)

text \<open>
  C5: for nested positions and nested weights of the same outer length and the same
  inner length in each dimension, \<open>compose\<close> succeeds and \<open>decompose\<close> of its result is
  the pair \<open>(positions, weights)\<close>.
\<close>

theorem decompose_compose_roundtrip:
  assumes "list_all2 (\<lambda>p w. length p = length w) positions weights"
  shows "map_sum id decompose (compose positions weights) = Inr (positions, weights)"
proof -
  from assms have len: "length positions = length weights"
    and inner: "\<forall>i<length positions. length (positions ! i) = length (weights ! i)"
    by (simp_all add: list_all2_conv_all_nth)
  obtain c where c: "compose positions weights = Inr c"
    using compose_ok [OF len inner] by blast
  from compose_views [OF len inner c] show ?thesis
    by (simp add: c decompose_views)
qed

theorem decompose_compose_roundtrip_witness:
  "list_all2 (\<lambda>p w. length p = length w) [[0, 1], [2]] [[1 / 2, 1 / 2], [1::real]]
   \<and> map_sum id decompose (compose [[0, 1], [2]] [[1 / 2, 1 / 2], [1]])
       = Inr ([[0, 1], [2]], [[1 / 2, 1 / 2], [1]])"
  using decompose_compose_roundtrip [of "[[0, 1], [2]]" "[[1 / 2, 1 / 2], [1]]"] by simp

subsection \<open>The two-dimensional example\<close>

lemma upt_2: "[0..<2] = [0, Suc 0]"
  by (simp add: upt_rec)

text \<open>
  C7: the product measure composed from dimension A with positions \<open>[0, 1]\<close> and weights
  \<open>[0.5, 0.5]\<close> and dimension B with position \<open>[2]\<close> and weight \<open>[1.0]\<close> has \<open>npts = 2\<close>,
  \<open>coords = [(0, 2), (1, 2)]\<close>, \<open>weights = [0.5, 0.5]\<close> and \<open>mass = [1.0, 1.0]\<close>.
\<close>

theorem example_2d_measure:
  "map_sum id (\<lambda>c. (product_n c, product_positions c, product_weights c, product_mass c))
     (compose [[0, 1], [2]] [[1 / 2, 1 / 2], [1]])
   = Inr (2, [[0, 2], [1, 2]], [1 / 2, 1 / 2], [1, 1])"
  by (simp add: compose_def index_def upt_2 product_n_def dirac_n_def product_positions_def
      dirac_positions_def product_weights_def dirac_weights_def product_mass_def
      dirac_mass_def py_sum_def)

subsection \<open>The setters of a dirac measure\<close>

lemma set_positions_loop_fold:
  "set_positions_loop [k..<length q] q s h =
     (fold (\<lambda>a h. h(fst a := (h (fst a))\<lparr>position := snd a\<rparr>)) (zip (drop k s) (drop k q)) h,
      if k < length q \<and> length s < length q then Inl IndexError else Inr ())"
proof (induction "length q - k" arbitrary: k h)
  case 0
  then show ?case by simp
next
  case (Suc d)
  then have kn: "k < length q" and d: "d = length q - Suc k" by simp_all
  have upt: "[k..<length q] = k # [Suc k..<length q]" using kn by (simp add: upt_rec)
  have dq: "drop k q = q ! k # drop (Suc k) q" using kn by (simp add: Cons_nth_drop_Suc)
  show ?case
  proof (cases "k < length s")
    case True
    then have ds: "drop k s = s ! k # drop (Suc k) s" by (simp add: Cons_nth_drop_Suc)
    show ?thesis
      using True kn by (simp add: upt index_def Suc.hyps(1) [OF d] ds dq)
  next
    case False
    then show ?thesis using kn by (simp add: upt index_def)
  qed
qed

lemma fold_position_frame:
  "weight (fold (\<lambda>a h. h(fst a := (h (fst a))\<lparr>position := snd a\<rparr>)) ps h r) = weight (h r)"
  by (induction ps arbitrary: h) (auto split: prod.splits)

lemma fold_position_last:
  "position (fold (\<lambda>a h. h(fst a := (h (fst a))\<lparr>position := snd a\<rparr>)) ps h r) =
     (case map_of (rev ps) r of None \<Rightarrow> position (h r) | Some x \<Rightarrow> x)"
  by (induction ps arbitrary: h) (auto simp: map_add_def split: option.splits)

lemma fold_position_other:
  "r \<notin> fst ` set ps \<Longrightarrow> fold (\<lambda>a h. h(fst a := (h (fst a))\<lparr>position := snd a\<rparr>)) ps h r = h r"
  by (induction ps arbitrary: h) (auto split: prod.splits)

lemma fold_position_distinct:
  "distinct s \<Longrightarrow>
   map (\<lambda>r. position (fold (\<lambda>a h. h(fst a := (h (fst a))\<lparr>position := snd a\<rparr>)) (zip s q) h r)) s =
     take (length s) q @ drop (length q) (map (\<lambda>r. position (h r)) s)"
proof (induction s arbitrary: q h)
  case Nil
  show ?case by simp
next
  case (Cons a s)
  note IH = Cons.IH and dist = Cons.prems
  show ?case
  proof (cases q)
    case Nil
    then show ?thesis by simp
  next
    case (Cons x q')
    let ?f = "\<lambda>a h. h(fst a := (h (fst a))\<lparr>position := snd a\<rparr>)"
    let ?h = "h(a := (h a)\<lparr>position := x\<rparr>)"
    have step: "fold ?f (zip (a # s) q) h = fold ?f (zip s q') ?h"
      by (simp add: Cons)
    have a: "a \<notin> fst ` set (zip s q')"
      using dist by (auto dest: set_zip_leftD)
    have hd: "position (fold ?f (zip s q') ?h a) = x"
      by (simp add: fold_position_other [OF a])
    have old: "map (\<lambda>r. position (?h r)) s = map (\<lambda>r. position (h r)) s"
      using dist by auto
    have "map (\<lambda>r. position (fold ?f (zip s q') ?h r)) s =
        take (length s) q' @ drop (length q') (map (\<lambda>r. position (?h r)) s)"
      using dist by (intro IH) simp
    then have tl: "map (\<lambda>r. position (fold ?f (zip s q') ?h r)) s =
        take (length s) q' @ drop (length q') (map (\<lambda>r. position (h r)) s)"
      by (simp only: old)
    have "map (\<lambda>r. position (fold ?f (zip (a # s) q) h r)) (a # s) =
        position (fold ?f (zip s q') ?h a) # map (\<lambda>r. position (fold ?f (zip s q') ?h r)) s"
      by (simp only: step list.map)
    also have "\<dots> = x # take (length s) q' @ drop (length q') (map (\<lambda>r. position (h r)) s)"
      by (simp only: hd tl)
    also have "\<dots> = take (length (a # s)) q @ drop (length q) (map (\<lambda>r. position (h r)) (a # s))"
      by (simp add: Cons)
    finally show ?thesis .
  qed
qed

lemma set_weights_loop_fold:
  "set_weights_loop [k..<length q] q s h =
     (fold (\<lambda>a h. h(fst a := (h (fst a))\<lparr>weight := snd a\<rparr>)) (zip (drop k s) (drop k q)) h,
      if k < length q \<and> length s < length q then Inl IndexError else Inr ())"
proof (induction "length q - k" arbitrary: k h)
  case 0
  then show ?case by simp
next
  case (Suc d)
  then have kn: "k < length q" and d: "d = length q - Suc k" by simp_all
  have upt: "[k..<length q] = k # [Suc k..<length q]" using kn by (simp add: upt_rec)
  have dq: "drop k q = q ! k # drop (Suc k) q" using kn by (simp add: Cons_nth_drop_Suc)
  show ?case
  proof (cases "k < length s")
    case True
    then have ds: "drop k s = s ! k # drop (Suc k) s" by (simp add: Cons_nth_drop_Suc)
    show ?thesis
      using True kn by (simp add: upt index_def Suc.hyps(1) [OF d] ds dq)
  next
    case False
    then show ?thesis using kn by (simp add: upt index_def)
  qed
qed

lemma fold_weight_frame:
  "position (fold (\<lambda>a h. h(fst a := (h (fst a))\<lparr>weight := snd a\<rparr>)) ps h r) = position (h r)"
  by (induction ps arbitrary: h) (auto split: prod.splits)

lemma fold_weight_last:
  "weight (fold (\<lambda>a h. h(fst a := (h (fst a))\<lparr>weight := snd a\<rparr>)) ps h r) =
     (case map_of (rev ps) r of None \<Rightarrow> weight (h r) | Some x \<Rightarrow> x)"
  by (induction ps arbitrary: h) (auto simp: map_add_def split: option.splits)

lemma fold_weight_other:
  "r \<notin> fst ` set ps \<Longrightarrow> fold (\<lambda>a h. h(fst a := (h (fst a))\<lparr>weight := snd a\<rparr>)) ps h r = h r"
  by (induction ps arbitrary: h) (auto split: prod.splits)

lemma fold_weight_distinct:
  "distinct s \<Longrightarrow>
   map (\<lambda>r. weight (fold (\<lambda>a h. h(fst a := (h (fst a))\<lparr>weight := snd a\<rparr>)) (zip s q) h r)) s =
     take (length s) q @ drop (length q) (map (\<lambda>r. weight (h r)) s)"
proof (induction s arbitrary: q h)
  case Nil
  show ?case by simp
next
  case (Cons a s)
  note IH = Cons.IH and dist = Cons.prems
  show ?case
  proof (cases q)
    case Nil
    then show ?thesis by simp
  next
    case (Cons x q')
    let ?f = "\<lambda>a h. h(fst a := (h (fst a))\<lparr>weight := snd a\<rparr>)"
    let ?h = "h(a := (h a)\<lparr>weight := x\<rparr>)"
    have step: "fold ?f (zip (a # s) q) h = fold ?f (zip s q') ?h"
      by (simp add: Cons)
    have a: "a \<notin> fst ` set (zip s q')"
      using dist by (auto dest: set_zip_leftD)
    have hd: "weight (fold ?f (zip s q') ?h a) = x"
      by (simp add: fold_weight_other [OF a])
    have old: "map (\<lambda>r. weight (?h r)) s = map (\<lambda>r. weight (h r)) s"
      using dist by auto
    have "map (\<lambda>r. weight (fold ?f (zip s q') ?h r)) s =
        take (length s) q' @ drop (length q') (map (\<lambda>r. weight (?h r)) s)"
      using dist by (intro IH) simp
    then have tl: "map (\<lambda>r. weight (fold ?f (zip s q') ?h r)) s =
        take (length s) q' @ drop (length q') (map (\<lambda>r. weight (h r)) s)"
      by (simp only: old)
    have "map (\<lambda>r. weight (fold ?f (zip (a # s) q) h r)) (a # s) =
        weight (fold ?f (zip s q') ?h a) # map (\<lambda>r. weight (fold ?f (zip s q') ?h r)) s"
      by (simp only: step list.map)
    also have "\<dots> = x # take (length s) q' @ drop (length q') (map (\<lambda>r. weight (h r)) s)"
      by (simp only: hd tl)
    also have "\<dots> = take (length (a # s)) q @ drop (length q) (map (\<lambda>r. weight (h r)) (a # s))"
      by (simp add: Cons)
    finally show ?thesis .
  qed
qed

lemma dirac_set_positions_store:
  "dirac_set_positions s h q =
     (fold (\<lambda>a h. h(fst a := (h (fst a))\<lparr>position := snd a\<rparr>)) (zip s q) h,
      if length s < length q then Inl IndexError else Inr ())"
  using set_positions_loop_fold [of 0 q s h] by (simp add: dirac_set_positions_def)

lemma dirac_set_weights_store:
  "dirac_set_weights s h q =
     (fold (\<lambda>a h. h(fst a := (h (fst a))\<lparr>weight := snd a\<rparr>)) (zip s q) h,
      if length s < length q then Inl IndexError else Inr ())"
  using set_weights_loop_fold [of 0 q s h] by (simp add: dirac_set_weights_def)

lemma set_positions_outcome:
  "snd (dirac_set_positions s h q) =
     (if dirac_n (points_of h s) < length q then Inl IndexError else Inr ())"
  by (simp add: dirac_set_positions_store dirac_n_def points_of_def)

lemma set_positions_weights:
  "dirac_weights (points_of (fst (dirac_set_positions s h q)) s) = dirac_weights (points_of h s)"
  by (simp add: dirac_set_positions_store dirac_weights_def points_of_def fold_position_frame)

lemma set_positions_n:
  "dirac_n (points_of (fst (dirac_set_positions s h q)) s) = dirac_n (points_of h s)"
  by (simp add: dirac_n_def points_of_def)

lemma set_positions_last:
  "dirac_positions (points_of (fst (dirac_set_positions s h q)) s) =
     map (\<lambda>r. case map_of (rev (zip s q)) r of None \<Rightarrow> position (h r) | Some x \<Rightarrow> x) s"
  by (simp add: dirac_set_positions_store dirac_positions_def points_of_def fold_position_last)

lemma set_positions_distinct:
  "distinct s \<Longrightarrow>
   dirac_positions (points_of (fst (dirac_set_positions s h q)) s) =
     take (dirac_n (points_of h s)) q @ drop (length q) (dirac_positions (points_of h s))"
  by (simp add: dirac_set_positions_store dirac_positions_def points_of_def dirac_n_def
      fold_position_distinct comp_def)

lemma set_weights_outcome:
  "snd (dirac_set_weights s h q) =
     (if dirac_n (points_of h s) < length q then Inl IndexError else Inr ())"
  by (simp add: dirac_set_weights_store dirac_n_def points_of_def)

lemma set_weights_positions:
  "dirac_positions (points_of (fst (dirac_set_weights s h q)) s) = dirac_positions (points_of h s)"
  by (simp add: dirac_set_weights_store dirac_positions_def points_of_def fold_weight_frame)

lemma set_weights_n:
  "dirac_n (points_of (fst (dirac_set_weights s h q)) s) = dirac_n (points_of h s)"
  by (simp add: dirac_n_def points_of_def)

lemma set_weights_last:
  "dirac_weights (points_of (fst (dirac_set_weights s h q)) s) =
     map (\<lambda>r. case map_of (rev (zip s q)) r of None \<Rightarrow> weight (h r) | Some x \<Rightarrow> x) s"
  by (simp add: dirac_set_weights_store dirac_weights_def points_of_def fold_weight_last)

lemma set_weights_distinct:
  "distinct s \<Longrightarrow>
   dirac_weights (points_of (fst (dirac_set_weights s h q)) s) =
     take (dirac_n (points_of h s)) q @ drop (length q) (dirac_weights (points_of h s))"
  by (simp add: dirac_set_weights_store dirac_weights_def points_of_def dirac_n_def
      fold_weight_distinct comp_def)

lemma upt_1: "[0..<1] = [0]"
  by (simp add: upt_rec)

lemma upt_3: "[0..<3] = [0, Suc 0, Suc (Suc 0)]"
  by (simp add: upt_rec)

text \<open>
  A point object held twice is assigned once and read twice: with \<open>p\<close> at both indices,
  \<open>s.coords = [9]\<close> leaves the coordinates \<open>[9, 9]\<close>.
\<close>

lemma shared_point_example:
  "dirac_positions (points_of (fst (dirac_set_positions [0, 0] h [9])) [0, 0]) = [9, 9]"
  by (simp add: dirac_set_positions_def index_def upt_1 points_of_def dirac_positions_def)

text \<open>
  C1, as stated, fails on the code. The setters check no length. On a measure of two
  distinct points at positions 1 and 2, assigning the one position \<open>[9]\<close> succeeds and
  overwrites the first position; assigning the three positions \<open>[7, 8, 9]\<close> raises
  \<open>IndexError\<close> only after both positions have been overwritten.
\<close>

theorem set_coords_wrong_length_counterexample:
  "length [9::real] \<noteq> dirac_n (points_of (\<lambda>r. if r = 0 then \<lparr>position = 1, weight = 1 / 2\<rparr> else \<lparr>position = 2, weight = 1 / 2\<rparr>) [0, 1])
   \<and> dirac_positions (points_of (\<lambda>r. if r = 0 then \<lparr>position = 1, weight = 1 / 2\<rparr> else \<lparr>position = 2, weight = 1 / 2\<rparr>) [0, 1]) = [1, 2]
   \<and> snd (dirac_set_positions [0, 1] (\<lambda>r. if r = 0 then \<lparr>position = 1, weight = 1 / 2\<rparr> else \<lparr>position = 2, weight = 1 / 2\<rparr>) [9]) = Inr ()
   \<and> dirac_positions (points_of (fst (dirac_set_positions [0, 1] (\<lambda>r. if r = 0 then \<lparr>position = 1, weight = 1 / 2\<rparr> else \<lparr>position = 2, weight = 1 / 2\<rparr>) [9])) [0, 1]) = [9, 2]
   \<and> length [7, 8, 9::real] \<noteq> dirac_n (points_of (\<lambda>r. if r = 0 then \<lparr>position = 1, weight = 1 / 2\<rparr> else \<lparr>position = 2, weight = 1 / 2\<rparr>) [0, 1])
   \<and> snd (dirac_set_positions [0, 1] (\<lambda>r. if r = 0 then \<lparr>position = 1, weight = 1 / 2\<rparr> else \<lparr>position = 2, weight = 1 / 2\<rparr>) [7, 8, 9]) = Inl IndexError
   \<and> dirac_positions (points_of (fst (dirac_set_positions [0, 1] (\<lambda>r. if r = 0 then \<lparr>position = 1, weight = 1 / 2\<rparr> else \<lparr>position = 2, weight = 1 / 2\<rparr>) [7, 8, 9])) [0, 1]) = [7, 8]"
  by (simp add: dirac_set_positions_def index_def upt_1 upt_3 points_of_def dirac_n_def
      dirac_positions_def)

text \<open>
  C1, amended: for every dirac measure \<open>s\<close> whose points are distinct objects and every
  sequence \<open>q\<close>, assigning \<open>s.coords = q\<close> fails, with \<open>IndexError\<close>, exactly when \<open>q\<close> is
  longer than \<open>s.npts\<close>, and then all \<open>npts\<close> positions have already been overwritten by
  the first \<open>npts\<close> entries of \<open>q\<close>; when \<open>q\<close> is shorter the assignment succeeds,
  overwriting the first \<open>len(q)\<close> positions and leaving the later ones. The weights and
  the point count are unchanged. Assigning \<open>s.weights = q\<close> behaves the same way, on the
  weights. (The outcome and the unchanged attribute do not depend on the points being
  distinct; where one point object occurs at several indices, it ends with the value
  assigned to it last.)
\<close>

theorem setters_overwrite_then_fail:
  "snd (dirac_set_positions s h q)
       = (if dirac_n (points_of h s) < length q then Inl IndexError else Inr ())
   \<and> dirac_weights (points_of (fst (dirac_set_positions s h q)) s) = dirac_weights (points_of h s)
   \<and> dirac_n (points_of (fst (dirac_set_positions s h q)) s) = dirac_n (points_of h s)
   \<and> dirac_positions (points_of (fst (dirac_set_positions s h q)) s)
       = map (\<lambda>r. case map_of (rev (zip s q)) r of None \<Rightarrow> position (h r) | Some x \<Rightarrow> x) s
   \<and> (distinct s \<longrightarrow>
        dirac_positions (points_of (fst (dirac_set_positions s h q)) s)
          = take (dirac_n (points_of h s)) q @ drop (length q) (dirac_positions (points_of h s)))
   \<and> snd (dirac_set_weights s h q)
       = (if dirac_n (points_of h s) < length q then Inl IndexError else Inr ())
   \<and> dirac_positions (points_of (fst (dirac_set_weights s h q)) s)
       = dirac_positions (points_of h s)
   \<and> dirac_n (points_of (fst (dirac_set_weights s h q)) s) = dirac_n (points_of h s)
   \<and> dirac_weights (points_of (fst (dirac_set_weights s h q)) s)
       = map (\<lambda>r. case map_of (rev (zip s q)) r of None \<Rightarrow> weight (h r) | Some x \<Rightarrow> x) s
   \<and> (distinct s \<longrightarrow>
        dirac_weights (points_of (fst (dirac_set_weights s h q)) s)
          = take (dirac_n (points_of h s)) q @ drop (length q) (dirac_weights (points_of h s)))"
  by (intro conjI impI set_positions_outcome set_positions_weights set_positions_n
      set_positions_last set_positions_distinct set_weights_outcome set_weights_positions
      set_weights_n set_weights_last set_weights_distinct)

theorem setters_overwrite_then_fail_witness:
  "distinct [0::nat, 1]
   \<and> dirac_positions (points_of (fst (dirac_set_positions [0, 1] (\<lambda>r. if r = 0 then \<lparr>position = 1, weight = 1 / 2\<rparr> else \<lparr>position = 2, weight = 1 / 2\<rparr>) [9])) [0, 1]) = [9, 2]
   \<and> dirac_weights (points_of (fst (dirac_set_weights [0, 1] (\<lambda>r. if r = 0 then \<lparr>position = 1, weight = 1 / 2\<rparr> else \<lparr>position = 2, weight = 1 / 2\<rparr>) [9])) [0, 1]) = [9, 1 / 2]"
  using setters_overwrite_then_fail [of "[0, 1]" "(\<lambda>r. if r = 0 then \<lparr>position = 1, weight = 1 / 2\<rparr> else \<lparr>position = 2, weight = 1 / 2\<rparr>)" "[9]"]
  by (simp add: points_of_def dirac_n_def dirac_positions_def dirac_weights_def)

lemma assign_imposed_weights:
  "dirac_weights (points_of (fst (case x of Inl e \<Rightarrow> (h, Inl e)
                                   | Inr coords \<Rightarrow> dirac_set_positions s h coords)) s)
     = dirac_weights (points_of h s)"
  by (cases x) (simp_all add: set_positions_weights)

lemma assign_imposed_n:
  "dirac_n (points_of (fst (case x of Inl e \<Rightarrow> (h, Inl e)
                             | Inr coords \<Rightarrow> dirac_set_positions s h coords)) s)
     = dirac_n (points_of h s)"
  by (simp add: dirac_n_def points_of_def)

lemma assign_imposed_last:
  "dirac_positions (points_of (fst (case x of Inl e \<Rightarrow> (h, Inl e)
                                     | Inr coords \<Rightarrow> dirac_set_positions s h coords)) s)
     = (case x of
          Inl e \<Rightarrow> dirac_positions (points_of h s)
        | Inr coords \<Rightarrow>
            map (\<lambda>r. case map_of (rev (zip s coords)) r of
                        None \<Rightarrow> position (h r) | Some x \<Rightarrow> x) s)"
  by (cases x) (simp_all add: set_positions_last)

lemma assign_imposed_distinct:
  "distinct s \<Longrightarrow>
   dirac_positions (points_of (fst (case x of Inl e \<Rightarrow> (h, Inl e)
                                     | Inr coords \<Rightarrow> dirac_set_positions s h coords)) s)
     = (case x of
          Inl e \<Rightarrow> dirac_positions (points_of h s)
        | Inr coords \<Rightarrow>
            take (dirac_n (points_of h s)) coords
              @ drop (length coords) (dirac_positions (points_of h s)))"
  by (cases x) (simp_all add: set_positions_distinct)

text \<open>
  C8: for every dirac measure \<open>s\<close>, assigning \<open>s.range = r\<close> or \<open>s.mean = m\<close> changes
  positions only: every weight and the point count stay as they were, whatever the
  external routine returns and whether or not point objects are shared, and the
  positions become the routine's output, written point by point: for distinct point
  objects the first \<open>npts\<close> entries of the output, followed by the old positions the output
  does not reach (in general each point object ends with the entry assigned to it last);
  nothing changes when the routine fails.
\<close>

theorem set_range_mean_frame:
  "dirac_weights (points_of (fst (dirac_set_range impose_spread s h r)) s)
       = dirac_weights (points_of h s)
   \<and> dirac_n (points_of (fst (dirac_set_range impose_spread s h r)) s) = dirac_n (points_of h s)
   \<and> dirac_positions (points_of (fst (dirac_set_range impose_spread s h r)) s)
       = (case impose_spread r (dirac_positions (points_of h s)) (dirac_weights (points_of h s)) of
            Inl e \<Rightarrow> dirac_positions (points_of h s)
          | Inr coords \<Rightarrow>
              map (\<lambda>r. case map_of (rev (zip s coords)) r of
                          None \<Rightarrow> position (h r) | Some x \<Rightarrow> x) s)
   \<and> (distinct s \<longrightarrow>
        dirac_positions (points_of (fst (dirac_set_range impose_spread s h r)) s)
          = (case impose_spread r (dirac_positions (points_of h s)) (dirac_weights (points_of h s)) of
               Inl e \<Rightarrow> dirac_positions (points_of h s)
             | Inr coords \<Rightarrow>
                 take (dirac_n (points_of h s)) coords
                   @ drop (length coords) (dirac_positions (points_of h s))))
   \<and> dirac_weights (points_of (fst (dirac_set_mean impose_mean s h m)) s)
       = dirac_weights (points_of h s)
   \<and> dirac_n (points_of (fst (dirac_set_mean impose_mean s h m)) s) = dirac_n (points_of h s)
   \<and> dirac_positions (points_of (fst (dirac_set_mean impose_mean s h m)) s)
       = (case impose_mean m (dirac_positions (points_of h s)) (dirac_weights (points_of h s)) of
            Inl e \<Rightarrow> dirac_positions (points_of h s)
          | Inr coords \<Rightarrow>
              map (\<lambda>r. case map_of (rev (zip s coords)) r of
                          None \<Rightarrow> position (h r) | Some x \<Rightarrow> x) s)
   \<and> (distinct s \<longrightarrow>
        dirac_positions (points_of (fst (dirac_set_mean impose_mean s h m)) s)
          = (case impose_mean m (dirac_positions (points_of h s)) (dirac_weights (points_of h s)) of
               Inl e \<Rightarrow> dirac_positions (points_of h s)
             | Inr coords \<Rightarrow>
                 take (dirac_n (points_of h s)) coords
                   @ drop (length coords) (dirac_positions (points_of h s))))"
  unfolding dirac_set_range_def dirac_set_mean_def
  by (intro conjI impI assign_imposed_weights assign_imposed_n assign_imposed_last
      assign_imposed_distinct)

theorem set_range_mean_frame_witness:
  "distinct [0::nat, 1]
   \<and> dirac_positions (points_of (fst (dirac_set_range (\<lambda>r xs ws. Inr (map (\<lambda>x. r * x) xs)) [0, 1] (\<lambda>r. if r = 0 then \<lparr>position = 1, weight = 1 / 2\<rparr> else \<lparr>position = 2, weight = 1 / 2\<rparr>) 3)) [0, 1]) = [3, 6]
   \<and> dirac_positions (points_of (fst (dirac_set_mean (\<lambda>r xs ws. Inr (map (\<lambda>x. r * x) xs)) [0, 1] (\<lambda>r. if r = 0 then \<lparr>position = 1, weight = 1 / 2\<rparr> else \<lparr>position = 2, weight = 1 / 2\<rparr>) 3)) [0, 1]) = [3, 6]"
  using set_range_mean_frame [of "(\<lambda>r xs ws. Inr (map (\<lambda>x. r * x) xs))" "[0, 1]" "(\<lambda>r. if r = 0 then \<lparr>position = 1, weight = 1 / 2\<rparr> else \<lparr>position = 2, weight = 1 / 2\<rparr>)" 3 "(\<lambda>r xs ws. Inr (map (\<lambda>x. r * x) xs))" 3]
  by (simp add: points_of_def dirac_n_def dirac_positions_def dirac_weights_def)

end
